theory Spec2Isabelle
  imports Complex_Main
begin

section \<open>Python values, exceptions and external collaborators\<close>

text \<open>
  The development embeds \<^verbatim>\<open>src/gfspy/gfspy.py\<close>. Every exception the source can raise on
  the modelled paths is a value: a function that may raise returns \<open>error + 'a\<close>, with
  \<open>Inl\<close> the exception. Python has a single \<^verbatim>\<open>ValueError\<close> class; the argument of
  \<open>ValueError\<close> below records which raise site (or which builtin) produced it.
\<close>

datatype value_error =
    DatetimeNotAvailable int int
  | LatitudeFormat
  | LongitudeFormat
  | InvalidVariable string
  | LevelRequired string
  | NotInList
  | InvalidIntLiteral
  | UnknownFormatCode
  | ParserError

datatype error =
    ValueError value_error
  | TypeError
  | KeyError
  | IndexError
  | UnboundLocalError
  | ZeroDivisionError
  | OverflowError
  | FileNotFoundError
  | DownloadFailed
  | NotFoundDas
  | NotFoundDds

text \<open>
  Python floats are kept abstract: the type \<open>'f\<close> together with the operations the
  source applies to floats. \<open>fl_div\<close> is \<open>None\<close> where Python raises
  \<^verbatim>\<open>ZeroDivisionError\<close>, \<open>fl_int\<close> is the builtin \<^verbatim>\<open>int\<close> on a float (truncation,
  an exception on a value that is not finite), \<open>fl_eq\<close> is the operator \<^verbatim>\<open>==\<close> and \<open>fl_str\<close> is
  \<^verbatim>\<open>str\<close>.
\<close>

record 'f float_ops =
  fl_of_int :: "int \<Rightarrow> 'f"
  fl_add :: "'f \<Rightarrow> 'f \<Rightarrow> 'f"
  fl_sub :: "'f \<Rightarrow> 'f \<Rightarrow> 'f"
  fl_mul :: "'f \<Rightarrow> 'f \<Rightarrow> 'f"
  fl_div :: "'f \<Rightarrow> 'f \<Rightarrow> 'f option"
  fl_eq :: "'f \<Rightarrow> 'f \<Rightarrow> bool"
  fl_int :: "'f \<Rightarrow> error + int"
  fl_str :: "'f \<Rightarrow> string"

text \<open>
  The arguments \<^verbatim>\<open>lat\<close> and \<^verbatim>\<open>lon\<close> of \<^verbatim>\<open>Forcast.get\<close> are dynamically typed.
  \<open>PObject s\<close> stands for any object that is neither a string nor a number, with \<open>s\<close>
  its \<^verbatim>\<open>str()\<close>.
\<close>

datatype 'f pyval =
    PStr string
  | PFloat 'f
  | PInt int
  | PBool bool
  | PObject string

subsection \<open>Strings and integers\<close>

definition is_space :: "char \<Rightarrow> bool" where
  "is_space c = (c \<in> set [CHR '' '', CHR 0x09, CHR 0x0A, CHR 0x0B, CHR 0x0C, CHR 0x0D,
                            CHR 0x1C, CHR 0x1D, CHR 0x1E, CHR 0x1F])"

definition is_digit :: "char \<Rightarrow> bool" where
  "is_digit c = (c \<in> set ''0123456789'')"

definition digit_val :: "char \<Rightarrow> int" where
  "digit_val c = int (of_char c) - 48"

fun digits_value :: "int \<Rightarrow> string \<Rightarrow> int" where
  "digits_value acc [] = acc"
| "digits_value acc (c # cs) = digits_value (10 * acc + digit_val c) cs"

definition strip :: "string \<Rightarrow> string" where
  "strip s = rev (dropWhile is_space (rev (dropWhile is_space s)))"

fun underscores_ok :: "string \<Rightarrow> bool" where
  "underscores_ok [] = True"
| "underscores_ok [c] = is_digit c"
| "underscores_ok (c # d # cs) =
     ((is_digit c \<or> (c = CHR ''_'' \<and> is_digit d)) \<and> underscores_ok (d # cs))"

text \<open>
  The builtin \<^verbatim>\<open>int\<close> on a string: surrounding whitespace, an optional sign, decimal
  digits with single underscores between digits. \<open>None\<close> is the \<^verbatim>\<open>ValueError\<close> of
  an invalid literal.
\<close>

definition py_int :: "string \<Rightarrow> int option" where
  "py_int s =
     (let t = strip s;
          neg = (t \<noteq> [] \<and> hd t = CHR ''-'');
          ds = (if t \<noteq> [] \<and> (hd t = CHR ''-'' \<or> hd t = CHR ''+'') then tl t else t)
      in if ds \<noteq> [] \<and> is_digit (hd ds) \<and> underscores_ok ds
         then Some ((if neg then - 1 else 1) *
                    digits_value 0 (filter (\<lambda>c. c \<noteq> CHR ''_'') ds))
         else None)"

definition digit_char :: "nat \<Rightarrow> char" where
  "digit_char n = ''0123456789'' ! n"

fun str_nat :: "nat \<Rightarrow> string" where
  "str_nat n = (if n < 10 then [digit_char n]
                else str_nat (n div 10) @ [digit_char (n mod 10)])"

definition str_int :: "int \<Rightarrow> string" where
  "str_int i = (if i < 0 then CHR ''-'' # str_nat (nat (- i)) else str_nat (nat i))"

text \<open>The format specification \<^verbatim>\<open>02d\<close> applied to an integer.\<close>

definition format_02d :: "int \<Rightarrow> string" where
  "format_02d i = (if 0 \<le> i \<and> i < 10 then CHR ''0'' # str_int i else str_int i)"

text \<open>\<^verbatim>\<open>str.isnumeric\<close> on an ASCII string: not empty and decimal digits only.\<close>

definition isnumeric :: "string \<Rightarrow> bool" where
  "isnumeric s = (s \<noteq> [] \<and> list_all is_digit s)"

subsection \<open>Dates and durations\<close>

text \<open>
  A \<^verbatim>\<open>datetime\<close> is the number of microseconds since midnight of day one, a
  \<^verbatim>\<open>timedelta\<close> a number of microseconds; both are unbounded here (Python raises
  \<^verbatim>\<open>OverflowError\<close> outside the years 1 to 9999). The calendar is not modelled:
  \<^verbatim>\<open>strftime("%Y%m%d")\<close> is a parameter of the environment.
\<close>

type_synonym datetime = int
type_synonym timedelta = int

definition timedelta :: "int \<Rightarrow> int \<Rightarrow> int \<Rightarrow> int \<Rightarrow> int \<Rightarrow> timedelta" where
  "timedelta days hours minutes seconds microseconds =
     (((days * 24 + hours) * 60 + minutes) * 60 + seconds) * 1000000 + microseconds"

definition dt_hour :: "datetime \<Rightarrow> int" where
  "dt_hour t = (t div 3600000000) mod 24"

definition dt_minute :: "datetime \<Rightarrow> int" where
  "dt_minute t = (t div 60000000) mod 60"

definition dt_second :: "datetime \<Rightarrow> int" where
  "dt_second t = (t div 1000000) mod 60"

definition dt_microsecond :: "datetime \<Rightarrow> int" where
  "dt_microsecond t = t mod 1000000"

text \<open>The attribute \<^verbatim>\<open>timedelta.seconds\<close>: the seconds within the day, whole days left out.\<close>

definition td_seconds :: "timedelta \<Rightarrow> int" where
  "td_seconds d = (d mod 86400000000) div 1000000"

text \<open>\<^verbatim>\<open>t.replace(second=0, microsecond=0, minute=0, hour=t.hour)\<close>\<close>

definition replace_to_hour :: "datetime \<Rightarrow> datetime" where
  "replace_to_hour t =
     t - timedelta 0 0 (dt_minute t) (dt_second t) (dt_microsecond t)"

definition hour_round :: "datetime \<Rightarrow> datetime" where
  "hour_round t = replace_to_hour t + timedelta 0 (dt_minute t div 30) 0 0 0"

text \<open>
  \<^verbatim>\<open>round(a / b)\<close> for integers \<open>a\<close> and \<open>b \<noteq> 0\<close>: true division followed by
  rounding half to even. In \<^verbatim>\<open>Forcast.get\<close> the dividend is below 86400 and the divisor
  a multiple of 3600 up to 32400, so the quotient is either a half-integer, which a
  double holds exactly, or at least \<open>1/64800\<close> away from one; the correctly rounded
  double therefore rounds to the same integer as the exact quotient.
\<close>

definition py_round_div :: "int \<Rightarrow> int \<Rightarrow> int" where
  "py_round_div a b =
     (let q = a div b; r = \<bar>a mod b\<bar>
      in if 2 * r < \<bar>b\<bar> then q
         else if \<bar>b\<bar> < 2 * r then q + 1
         else if even q then q else q + 1)"

subsection \<open>The cached metadata\<close>

text \<open>
  \<^verbatim>\<open>self.times\<close>, \<^verbatim>\<open>self.coords\<close> and \<^verbatim>\<open>self.variables\<close> as the service's
  metadata fills them: the attributes of \<^verbatim>\<open>time\<close> and the grid sizes are strings,
  \<^verbatim>\<open>minimum\<close>, \<^verbatim>\<open>maximum\<close> and \<^verbatim>\<open>resolution\<close> floats. A variable's dictionary
  holds the attributes read from the metadata description (\<open>das\<close>) and, once it has
  been assigned, the key \<^verbatim>\<open>level_dependent\<close>; \<open>None\<close> is the absent key.
\<close>

record time_meta =
  grads_size :: string
  grads_step :: string

record 'f axis_meta =
  axis_grads_size :: string
  minimum :: 'f
  maximum :: 'f
  resolution :: 'f

datatype 'f attr_val = AStr string | AFlo 'f

record 'f das_attrs =
  FillValue :: "'f attr_val option"
  missing_value :: "'f attr_val option"
  long_name :: "'f attr_val option"

record 'f var_meta =
  das :: "'f das_attrs"
  level_dependent :: "bool option"

text \<open>The decoder's result for \<^verbatim>\<open>hgtprs\<close>: the array and its coordinate values.\<close>

record 'f ndarray =
  shape :: "nat list"
  flat :: "'f list"

record 'f hgtprs =
  data :: "'f ndarray"
  coords_time :: "'f list"
  coords_lev :: "'f list"
  coords_lat :: "'f list"
  coords_lon :: "'f list"

text \<open>
  The collaborators outside the repository: the clock (one reading of
  \<^verbatim>\<open>datetime.utcnow()\<close> per call, and the local \<^verbatim>\<open>today()\<close>), the calendar,
  \<^verbatim>\<open>dateutil.parser.parse\<close>, \<^verbatim>\<open>requests.get\<close> (status and text), the decoder
  \<^verbatim>\<open>File\<close> and the float arithmetic. \<open>das_parse\<close> stands for lines 277 to 307 of
  \<^verbatim>\<open>get_attributes\<close>, the scraping of the metadata description into \<^verbatim>\<open>time\<close> (absent
  when the text has no \<^verbatim>\<open>time\<close> entity), \<^verbatim>\<open>coords\<close> and \<^verbatim>\<open>variables\<close>; it stores no
  \<^verbatim>\<open>level_dependent\<close> key.
\<close>

record 'f env =
  utcnow :: datetime
  today :: datetime
  strftime_Ymd :: "datetime \<Rightarrow> string"
  dateutil_parse :: "string \<Rightarrow> datetime option"
  requests_get :: "string \<Rightarrow> nat \<times> string"
  das_parse :: "string \<Rightarrow> time_meta option \<times> (string \<Rightarrow> 'f axis_meta option)
                  \<times> (string \<times> 'f das_attrs) list"
  File :: "string \<Rightarrow> 'f hgtprs"
  ops :: "'f float_ops"

record 'f forcast =
  fc_resolution :: string
  fc_timestep :: string
  times :: time_meta
  coords :: "string \<Rightarrow> 'f axis_meta option"
  variables :: "(string \<times> 'f var_meta) list"

section \<open>Forcast.get: the forecast run and the time index\<close>

text \<open>\<^verbatim>\<open>int(self.times["grads_step"][0])\<close>\<close>

definition step_hours :: "time_meta \<Rightarrow> error + int" where
  "step_hours tm =
     (case grads_step tm of
        [] \<Rightarrow> Inl IndexError
      | c # _ \<Rightarrow> (case py_int [c] of
                    None \<Rightarrow> Inl (ValueError InvalidIntLiteral)
                  | Some k \<Rightarrow> Inr k))"

text \<open>\<^verbatim>\<open>int(self.times["grads_size"]) * int(self.times["grads_step"][0])\<close>\<close>

definition run_hours :: "time_meta \<Rightarrow> error + int" where
  "run_hours tm =
     (case py_int (grads_size tm) of
        None \<Rightarrow> Inl (ValueError InvalidIntLiteral)
      | Some n \<Rightarrow> (case step_hours tm of Inl e \<Rightarrow> Inl e | Inr k \<Rightarrow> Inr (n * k)))"

definition earliest_available :: "datetime \<Rightarrow> datetime" where
  "earliest_available now = hour_round (now - timedelta 7 0 0 0 0)"

definition latest_available :: "datetime \<Rightarrow> int \<Rightarrow> datetime" where
  "latest_available now h =
     hour_round (now - timedelta 0 (dt_hour now - 6 * (dt_hour now div 6) - h)
                           (dt_minute now) (dt_second now) (dt_microsecond now))"

text \<open>\<^verbatim>\<open>while desired_date < query_forcast: query_forcast -= timedelta(hours=6)\<close>\<close>

function query_forcast_loop :: "datetime \<Rightarrow> datetime \<Rightarrow> datetime" where
  "query_forcast_loop desired_date query_forcast =
     (if desired_date < query_forcast
      then query_forcast_loop desired_date (query_forcast - timedelta 0 6 0 0 0)
      else query_forcast)"
  by pat_completeness auto
termination
  by (relation "measure (\<lambda>(d, q). nat (q - d))") (auto simp: timedelta_def)

record run_choice =
  forcast_date :: string
  forcast_time :: string
  query_time :: string

text \<open>
  Lines 85 to 97: the run is chosen and the time index computed. \<^verbatim>\<open>strftime("%H")\<close>
  prints the hour on two digits.
\<close>

definition choose_run :: "'f env \<Rightarrow> time_meta \<Rightarrow> datetime \<Rightarrow> datetime \<Rightarrow> error + run_choice" where
  "choose_run env tm desired_date latest_forcast =
     (let query_forcast = query_forcast_loop desired_date latest_forcast
      in case step_hours tm of
           Inl e \<Rightarrow> Inl e
         | Inr k \<Rightarrow>
             if k * 60 * 60 = 0 then Inl ZeroDivisionError
             else Inr \<lparr>forcast_date = strftime_Ymd env query_forcast,
                       forcast_time = format_02d (dt_hour query_forcast),
                       query_time = ''['' @ str_int (py_round_div
                         (td_seconds (desired_date - query_forcast)) (k * 60 * 60)) @ '']''\<rparr>)"

text \<open>
  Lines 68 to 106 of \<^verbatim>\<open>Forcast.get\<close>. The metadata is read while
  \<^verbatim>\<open>latest_available\<close> is computed, before the requested date is parsed.
\<close>

definition resolve_time :: "'f env \<Rightarrow> time_meta \<Rightarrow> string \<Rightarrow> error + run_choice" where
  "resolve_time env tm date_time =
     (case run_hours tm of
        Inl e \<Rightarrow> Inl e
      | Inr h \<Rightarrow>
          (case dateutil_parse env date_time of
             None \<Rightarrow> Inl (ValueError ParserError)
           | Some desired_date \<Rightarrow>
               (let latest = latest_available (utcnow env) h;
                    latest_forcast = latest - timedelta 0 h 0 0 0
                in if earliest_available (utcnow env) < desired_date \<and> desired_date < latest
                   then choose_run env tm desired_date latest_forcast
                   else Inl (ValueError (DatetimeNotAvailable desired_date h)))))"

section \<open>Forcast.value_to_index and the coordinate arguments\<close>

text \<open>
  The element \<^verbatim>\<open>float(resolution) * n + float(minimum)\<close> of \<^verbatim>\<open>possibles\<close>; the integer
  \<open>n\<close> is converted to a float by the multiplication.
\<close>

definition lattice :: "'f float_ops \<Rightarrow> 'f axis_meta \<Rightarrow> nat \<Rightarrow> 'f" where
  "lattice fo ax n =
     fl_add fo (fl_mul fo (resolution ax) (fl_of_int fo (int n))) (minimum ax)"

text \<open>\<^verbatim>\<open>list.index\<close>: the position of the first element that compares equal.\<close>

fun list_index :: "('a \<Rightarrow> bool) \<Rightarrow> 'a list \<Rightarrow> nat option" where
  "list_index p [] = None"
| "list_index p (x # xs) = (if p x then Some 0 else map_option Suc (list_index p xs))"

definition value_to_index ::
  "'f float_ops \<Rightarrow> (string \<Rightarrow> 'f axis_meta option) \<Rightarrow> string \<Rightarrow> 'f \<Rightarrow> error + nat" where
  "value_to_index fo cs coord v =
     (case cs coord of
        None \<Rightarrow> Inl KeyError
      | Some ax \<Rightarrow>
          (case py_int (axis_grads_size ax) of
             None \<Rightarrow> Inl (ValueError InvalidIntLiteral)
           | Some n \<Rightarrow>
               (case list_index (\<lambda>x. fl_eq fo x v) (map (lattice fo ax) [0..<nat n]) of
                  None \<Rightarrow> Inl (ValueError NotInList)
                | Some i \<Rightarrow> Inr i)))"

text \<open>
  Lines 108 to 129 (latitude) and 131 to 152 (longitude), which differ in the axis name
  and the message only. In the range branch \<^verbatim>\<open>float\<close> is applied to the list that
  \<^verbatim>\<open>re.findall\<close> returns, which raises \<^verbatim>\<open>TypeError\<close> whatever the list holds.
  \<^verbatim>\<open>lat[0]\<close> raises \<^verbatim>\<open>IndexError\<close> on the empty string. Floats and integers pass
  through unchanged.
\<close>

definition coord_expr ::
  "'f float_ops \<Rightarrow> (string \<Rightarrow> 'f axis_meta option) \<Rightarrow> string \<Rightarrow> value_error \<Rightarrow> 'f pyval
     \<Rightarrow> error + 'f pyval" where
  "coord_expr fo cs coord bad v =
     (case v of
        PStr s \<Rightarrow>
          if s = [] then Inl IndexError
          else if hd s = CHR ''['' \<and> last s = CHR '']'' \<and> CHR '':'' \<in> set s then Inl TypeError
          else if isnumeric s then
            (case value_to_index fo cs coord (fl_of_int fo (digits_value 0 s)) of
               Inl e \<Rightarrow> Inl e
             | Inr i \<Rightarrow> Inr (PStr (''['' @ str_int (int i) @ '']'')))
          else Inl (ValueError bad)
      | PFloat x \<Rightarrow> Inr v
      | PInt i \<Rightarrow> Inr v
      | PBool b \<Rightarrow> Inr v
      | PObject x \<Rightarrow> Inl (ValueError bad))"

section \<open>The level range and Forcast.get_alt_press\<close>

text \<open>
  \<^verbatim>\<open>int((minimum - maximum) / resolution)\<close> on the \<^verbatim>\<open>lev\<close> axis, written on lines 158
  to 161 and again on lines 212 to 215.
\<close>

definition lev_upper :: "'f float_ops \<Rightarrow> (string \<Rightarrow> 'f axis_meta option) \<Rightarrow> error + int" where
  "lev_upper fo cs =
     (case cs ''lev'' of
        None \<Rightarrow> Inl KeyError
      | Some ax \<Rightarrow>
          (case fl_div fo (fl_sub fo (minimum ax) (maximum ax)) (resolution ax) of
             None \<Rightarrow> Inl ZeroDivisionError
           | Some q \<Rightarrow> fl_int fo q))"

text \<open>\<^verbatim>\<open>str(x)\<close>, as \<^verbatim>\<open>str.format\<close> applies it to a field without a format specification.\<close>

definition py_str :: "'f float_ops \<Rightarrow> 'f pyval \<Rightarrow> string" where
  "py_str fo v =
     (case v of
        PStr s \<Rightarrow> s
      | PFloat x \<Rightarrow> fl_str fo x
      | PInt i \<Rightarrow> str_int i
      | PBool b \<Rightarrow> (if b then ''True'' else ''False'')
      | PObject s \<Rightarrow> s)"

text \<open>
  \<^verbatim>\<open>url.format(res=..., step=..., date=..., hour=..., info=...)\<close>. The field
  \<^verbatim>\<open>{hour:02d}\<close> accepts integers only.
\<close>

definition url_format ::
  "string \<Rightarrow> string \<Rightarrow> string \<Rightarrow> 'f pyval \<Rightarrow> string \<Rightarrow> error + string" where
  "url_format res step date hour info =
     (let fill = (\<lambda>h. ''https://nomads.ncep.noaa.gov/dods/gfs_'' @ res @ step @ ''/gfs'' @ date
                        @ ''/gfs_'' @ res @ step @ ''_'' @ format_02d h @ ''z.'' @ info)
      in case hour of
           PInt h \<Rightarrow> Inr (fill h)
         | PBool b \<Rightarrow> Inr (fill (if b then 1 else 0))
         | PStr s \<Rightarrow> Inl (ValueError UnknownFormatCode)
         | PFloat x \<Rightarrow> Inl (ValueError UnknownFormatCode)
         | PObject s \<Rightarrow> Inl TypeError)"

text \<open>\<^verbatim>\<open>numpy.ndarray.squeeze\<close>: every axis of length one is removed.\<close>

definition squeeze :: "'f ndarray \<Rightarrow> 'f ndarray" where
  "squeeze a = a\<lparr>shape := filter (\<lambda>d. d \<noteq> 1) (shape a)\<rparr>"

text \<open>The loop of lines 246 to 250 over \<^verbatim>\<open>[times, levs, lats, lons]\<close>.\<close>

fun collect_dims ::
  "'f list list \<Rightarrow> 'f list list \<times> 'f ndarray \<Rightarrow> 'f list list \<times> 'f ndarray" where
  "collect_dims [] st = st"
| "collect_dims (var # vars) (input_dims, height) =
     collect_dims vars
       (if 1 < length var then (input_dims @ [var], height)
        else (input_dims, squeeze height))"

text \<open>
  A \<^verbatim>\<open>RegularGridInterpolator\<close> is represented by the two arguments it is constructed
  from; scipy's own validation of them is outside the repository.
\<close>

record 'f interpolator =
  grid :: "'f list list"
  grid_values :: "'f ndarray"

text \<open>\<^verbatim>\<open>[1000 - v for v in ...coords["lev"].values]\<close>\<close>

definition inverted_levs :: "'f float_ops \<Rightarrow> 'f hgtprs \<Rightarrow> 'f list" where
  "inverted_levs fo decoded =
     map (\<lambda>v. fl_sub fo (fl_of_int fo 1000) v) (coords_lev decoded)"

text \<open>Lines 237 to 252.\<close>

definition build_interpolator :: "'f float_ops \<Rightarrow> 'f hgtprs \<Rightarrow> 'f interpolator" where
  "build_interpolator fo decoded =
     (let height = data decoded;
          times = coords_time decoded;
          levs = inverted_levs fo decoded;
          lats = coords_lat decoded;
          lons = coords_lon decoded;
          st = collect_dims [times, levs, lats, lons] ([], height)
      in \<lparr>grid = fst st, grid_values = snd st\<rparr>)"

definition get_alt_press ::
  "'f env \<Rightarrow> 'f forcast \<Rightarrow> string \<Rightarrow> 'f pyval \<Rightarrow> string \<Rightarrow> 'f pyval \<Rightarrow> 'f pyval
     \<Rightarrow> error + 'f interpolator" where
  "get_alt_press env self fdate ftime qtime lat lon =
     (case lev_upper (ops env) (coords self) of
        Inl e \<Rightarrow> Inl e
      | Inr max_lev \<Rightarrow>
          (case url_format (fc_resolution self) (fc_timestep self) fdate ftime
                  (''ascii?hgtprs'' @ qtime @ ''[0:'' @ str_int max_lev @ '']''
                     @ py_str (ops env) lat @ py_str (ops env) lon) of
             Inl e \<Rightarrow> Inl e
           | Inr u \<Rightarrow>
               (let r = requests_get env u
                in if fst r \<noteq> 200 then Inl DownloadFailed
                   else Inr (build_interpolator (ops env) (File env (snd r))))))"

section \<open>Forcast.get: the level range and the query\<close>

text \<open>
  Lines 154 to 169. The local \<^verbatim>\<open>lev\<close> is assigned only when \<^verbatim>\<open>alt\<close> is not the empty
  list; \<open>None\<close> is the unbound local. \<^verbatim>\<open>forcast_time\<close> is the string that
  \<^verbatim>\<open>strftime("%H")\<close> returned.
\<close>

definition lev_stage ::
  "'f env \<Rightarrow> 'f forcast \<Rightarrow> run_choice \<Rightarrow> 'f pyval \<Rightarrow> 'f pyval \<Rightarrow> 'f pyval list
     \<Rightarrow> error + string option" where
  "lev_stage env self rc lat lon alt =
     (if alt = [] then Inr None
      else
        (case lev_upper (ops env) (coords self) of
           Inl e \<Rightarrow> Inl e
         | Inr u \<Rightarrow>
             (case get_alt_press env self (forcast_date rc) (PStr (forcast_time rc))
                     (query_time rc) lat lon of
                Inl e \<Rightarrow> Inl e
              | Inr alt_press \<Rightarrow> Inr (Some (''[0:'' @ str_int u @ '']'')))))"

text \<open>\<^verbatim>\<open>s + x\<close> for a string \<open>s\<close>: \<^verbatim>\<open>TypeError\<close> unless \<open>x\<close> is a string.\<close>

definition str_add :: "string \<Rightarrow> 'f pyval \<Rightarrow> error + string" where
  "str_add s v = (case v of PStr t \<Rightarrow> Inr (s @ t) | _ \<Rightarrow> Inl TypeError)"

definition add_lat_lon :: "string \<Rightarrow> 'f pyval \<Rightarrow> 'f pyval \<Rightarrow> error + string" where
  "add_lat_lon s lat lon =
     (case str_add s lat of Inl e \<Rightarrow> Inl e | Inr t \<Rightarrow> str_add t lon)"

text \<open>
  The loop of lines 172 to 189, with \<^verbatim>\<open>query\<close> as accumulator. A bound \<^verbatim>\<open>lev\<close> is a
  string, so \<^verbatim>\<open>lev == []\<close> is false whenever it can be evaluated.
\<close>

fun make_query ::
  "(string \<times> 'f var_meta) list \<Rightarrow> string \<Rightarrow> string option \<Rightarrow> 'f pyval \<Rightarrow> 'f pyval
     \<Rightarrow> string list \<Rightarrow> string \<Rightarrow> error + string" where
  "make_query vs qtime lev lat lon [] query = Inr query"
| "make_query vs qtime lev lat lon (variable # rest) query =
     (case map_of vs variable of
        None \<Rightarrow> Inl (ValueError (InvalidVariable variable))
      | Some m \<Rightarrow>
          (case level_dependent m of
             None \<Rightarrow> Inl KeyError
           | Some True \<Rightarrow>
               (case lev of
                  None \<Rightarrow> Inl UnboundLocalError
                | Some l \<Rightarrow>
                    (case add_lat_lon (query @ '','' @ variable @ qtime @ l) lat lon of
                       Inl e \<Rightarrow> Inl e
                     | Inr q \<Rightarrow> make_query vs qtime lev lat lon rest q))
           | Some False \<Rightarrow>
               (case add_lat_lon (query @ '','' @ variable @ qtime) lat lon of
                  Inl e \<Rightarrow> Inl e
                | Inr q \<Rightarrow> make_query vs qtime lev lat lon rest q)))"

text \<open>
  \<^verbatim>\<open>Forcast.get\<close> has no \<^verbatim>\<open>return\<close> statement; the model returns the locals at the end
  of the body.
\<close>

record 'f get_locals =
  run :: run_choice
  lat_expr :: "'f pyval"
  lon_expr :: "'f pyval"
  lev_expr :: "string option"
  query :: string

definition get ::
  "'f env \<Rightarrow> 'f forcast \<Rightarrow> string list \<Rightarrow> string \<Rightarrow> 'f pyval \<Rightarrow> 'f pyval \<Rightarrow> 'f pyval list
     \<Rightarrow> error + 'f get_locals" where
  "get env self vars date_time lat lon alt =
     (case resolve_time env (times self) date_time of
        Inl e \<Rightarrow> Inl e
      | Inr rc \<Rightarrow>
          (case coord_expr (ops env) (coords self) ''lat'' LatitudeFormat lat of
             Inl e \<Rightarrow> Inl e
           | Inr lat' \<Rightarrow>
               (case coord_expr (ops env) (coords self) ''lon'' LongitudeFormat lon of
                  Inl e \<Rightarrow> Inl e
                | Inr lon' \<Rightarrow>
                    (case lev_stage env self rc lat' lon' alt of
                       Inl e \<Rightarrow> Inl e
                     | Inr lev \<Rightarrow>
                         (case make_query (variables self) (query_time rc) lev lat' lon'
                                 vars [] of
                            Inl e \<Rightarrow> Inl e
                          | Inr q \<Rightarrow>
                              Inr \<lparr>run = rc, lat_expr = lat', lon_expr = lon',
                                   lev_expr = lev, query = q\<rparr>)))))"

section \<open>get_attributes and Forcast.__init__\<close>

text \<open>
  \<^verbatim>\<open>re.findall(r"ARRAY:\n(.*?)\n", text)\<close>: after each \<^verbatim>\<open>ARRAY:\<close> line, the text up to the
  next newline; the search goes on behind that newline.
\<close>

function findall_array :: "string \<Rightarrow> string list" where
  "findall_array s =
     (if s = [] then []
      else if take 7 s = ''ARRAY:'' @ [CHR 0x0A] \<and> CHR 0x0A \<in> set (drop 7 s)
      then takeWhile (\<lambda>c. c \<noteq> CHR 0x0A) (drop 7 s)
             # findall_array (tl (dropWhile (\<lambda>c. c \<noteq> CHR 0x0A) (drop 7 s)))
      else findall_array (tl s))"
  by pat_completeness auto
termination
proof (relation "measure length")
  fix s :: string
  assume "s \<noteq> []"
  have "length (dropWhile (\<lambda>c. c \<noteq> CHR 0x0A) (drop 7 s)) \<le> length (drop 7 s)"
    by (rule length_dropWhile_le)
  with \<open>s \<noteq> []\<close>
  show "(tl (dropWhile (\<lambda>c. c \<noteq> CHR 0x0A) (drop 7 s)), s) \<in> measure length"
    by (cases s) auto
next
  fix s :: string
  assume "s \<noteq> []"
  then show "(tl s, s) \<in> measure length" by (cases s) auto
qed simp

text \<open>
  \<^verbatim>\<open>re.findall(r"(.*?)\[", array)\<close>: the pieces of text in front of each opening bracket.
  A piece does not reach over a newline, and what follows the last bracket is no piece.
\<close>

fun findall_bracket :: "string \<Rightarrow> string \<Rightarrow> string list" where
  "findall_bracket acc [] = []"
| "findall_bracket acc (c # cs) =
     (if c = CHR ''['' then acc # findall_bracket [] cs
      else if c = CHR 0x0A then findall_bracket [] cs
      else findall_bracket (acc @ [c]) cs)"

text \<open>\<^verbatim>\<open>str.split()\<close>: the maximal runs of characters that are not whitespace.\<close>

fun split_ws :: "string \<Rightarrow> string \<Rightarrow> string list" where
  "split_ws acc [] = (if acc = [] then [] else [acc])"
| "split_ws acc (c # cs) =
     (if is_space c then (if acc = [] then split_ws [] cs else acc # split_ws [] cs)
      else split_ws (acc @ [c]) cs)"

text \<open>The inner loop of lines 325 to 327; \<^verbatim>\<open>dim.split()[0]\<close> raises on a blank piece.\<close>

fun scan_dims :: "string list \<Rightarrow> bool \<Rightarrow> error + bool" where
  "scan_dims [] lev_dep = Inr lev_dep"
| "scan_dims (piece # dims) lev_dep =
     (case split_ws [] piece of
        [] \<Rightarrow> Inl IndexError
      | d # _ \<Rightarrow> scan_dims dims (if d = ''lev'' then True else lev_dep))"

text \<open>\<^verbatim>\<open>variables[var]["level_dependent"] = lev_dep\<close>\<close>

definition set_level_dependent ::
  "string \<Rightarrow> bool \<Rightarrow> (string \<times> 'f var_meta) list \<Rightarrow> (string \<times> 'f var_meta) list" where
  "set_level_dependent var lev_dep vs =
     map (\<lambda>(n, m). if n = var then (n, m\<lparr>level_dependent := Some lev_dep\<rparr>) else (n, m)) vs"

text \<open>One pass of the loop of lines 321 to 328.\<close>

definition mark_array ::
  "string \<Rightarrow> (string \<times> 'f var_meta) list \<Rightarrow> error + (string \<times> 'f var_meta) list" where
  "mark_array array vs =
     (case findall_bracket [] array of
        [] \<Rightarrow> Inl IndexError
      | p # _ \<Rightarrow>
          (case split_ws [] p of
             _ # var # _ \<Rightarrow>
               if map_of vs var \<noteq> None then
                 (case scan_dims (findall_bracket [] array) False of
                    Inl e \<Rightarrow> Inl e
                  | Inr lev_dep \<Rightarrow> Inr (set_level_dependent var lev_dep vs))
               else Inr vs
           | _ \<Rightarrow> Inl IndexError))"

fun mark_arrays ::
  "string list \<Rightarrow> (string \<times> 'f var_meta) list \<Rightarrow> error + (string \<times> 'f var_meta) list" where
  "mark_arrays [] vs = Inr vs"
| "mark_arrays (array # arrays) vs =
     (case mark_array array vs of Inl e \<Rightarrow> Inl e | Inr vs' \<Rightarrow> mark_arrays arrays vs')"

text \<open>
  What is saved to and loaded from the attribute file, and the state outside the
  process: the keys of \<^verbatim>\<open>config.json\<close>, the attribute files, and the URLs requested
  so far.
\<close>

record 'f catalog =
  c_time :: time_meta
  c_coords :: "string \<Rightarrow> 'f axis_meta option"
  c_variables :: "(string \<times> 'f var_meta) list"

record 'f world =
  saved_atts :: "string list"
  att_files :: "string \<Rightarrow> 'f catalog option"
  request_log :: "string list"

definition fresh_variable :: "'f das_attrs \<Rightarrow> 'f var_meta" where
  "fresh_variable a = \<lparr>das = a, level_dependent = None\<rparr>"

definition das_url :: "'f env \<Rightarrow> string \<Rightarrow> string \<Rightarrow> string" where
  "das_url env res step =
     ''https://nomads.ncep.noaa.gov/dods/gfs_'' @ res @ step @ ''/gfs''
       @ strftime_Ymd env (utcnow env) @ ''/gfs_'' @ res @ step @ ''_00z.das''"

definition dds_url :: "'f env \<Rightarrow> string \<Rightarrow> string \<Rightarrow> string" where
  "dds_url env res step =
     ''https://nomads.ncep.noaa.gov/dods/gfs_'' @ res @ step @ ''/gfs''
       @ strftime_Ymd env (today env) @ ''/gfs_'' @ res @ step @ ''_00z.dds''"

text \<open>
  Lines 309 to 336, after the metadata description has been fetched and scraped.
  \<^verbatim>\<open>time\<close> is read, and found unbound when the description had no \<^verbatim>\<open>time\<close> entity,
  only after the array declarations have been processed.
\<close>

definition declare_and_save ::
  "'f env \<Rightarrow> string \<Rightarrow> string \<Rightarrow> 'f world
     \<Rightarrow> time_meta option \<times> (string \<Rightarrow> 'f axis_meta option) \<times> (string \<times> 'f das_attrs) list
     \<Rightarrow> (error + 'f catalog) \<times> 'f world" where
  "declare_and_save env res step w parsed =
     (let u = dds_url env res step;
          r = requests_get env u;
          w' = w\<lparr>request_log := request_log w @ [u]\<rparr>
      in if fst r \<noteq> 200 then (Inl NotFoundDds, w')
         else
           (case mark_arrays (findall_array (snd r))
                   (map (\<lambda>(n, a). (n, fresh_variable a)) (snd (snd parsed))) of
              Inl e \<Rightarrow> (Inl e, w')
            | Inr vs \<Rightarrow>
                (case fst parsed of
                   None \<Rightarrow> (Inl UnboundLocalError, w')
                 | Some t \<Rightarrow>
                     (let c = \<lparr>c_time = t, c_coords = fst (snd parsed), c_variables = vs\<rparr>
                      in (Inr c, w'\<lparr>att_files := (att_files w')(res @ step \<mapsto> c),
                                     saved_atts := saved_atts w' @ [res @ step]\<rparr>)))))"

text \<open>
  \<^verbatim>\<open>get_attributes\<close>. Before 06:00 UTC the reference date is computed with
  \<^verbatim>\<open>timedelta(day=1)\<close>; \<^verbatim>\<open>timedelta\<close> has no keyword \<^verbatim>\<open>day\<close> and raises
  \<^verbatim>\<open>TypeError\<close>. The hour of both URLs is the integer 0.
\<close>

definition get_attributes ::
  "'f env \<Rightarrow> string \<Rightarrow> string \<Rightarrow> 'f world \<Rightarrow> (error + 'f catalog) \<times> 'f world" where
  "get_attributes env res step w =
     (if res @ step \<notin> set (saved_atts w) then
        if dt_hour (utcnow env) < 6 then (Inl TypeError, w)
        else
          (let u = das_url env res step;
               r = requests_get env u;
               w' = w\<lparr>request_log := request_log w @ [u]\<rparr>
           in if fst r \<noteq> 200 then (Inl NotFoundDas, w')
              else declare_and_save env res step w' (das_parse env (snd r)))
      else
        (case att_files w (res @ step) of
           None \<Rightarrow> (Inl FileNotFoundError, w)
         | Some c \<Rightarrow> (Inr c, w)))"

text \<open>\<^verbatim>\<open>Forcast.__init__\<close>\<close>

definition Forcast ::
  "'f env \<Rightarrow> string \<Rightarrow> string \<Rightarrow> 'f world \<Rightarrow> (error + 'f forcast) \<times> 'f world" where
  "Forcast env res timestep w =
     (let timestep' = (if timestep \<noteq> [] then ''_'' @ timestep else timestep)
      in case get_attributes env res timestep' w of
           (Inl e, w') \<Rightarrow> (Inl e, w')
         | (Inr c, w') \<Rightarrow>
             (Inr \<lparr>fc_resolution = res, fc_timestep = timestep', times = c_time c,
                   coords = c_coords c, variables = c_variables c\<rparr>, w'))"

section \<open>The specification's wording\<close>

text \<open>
  \<open>floor_to_hour\<close> as the specification describes it: minutes, seconds and microseconds
  are zeroed and the hour goes up by one when the minutes are 30 or more.
\<close>

definition spec_floor_to_hour :: "datetime \<Rightarrow> datetime" where
  "spec_floor_to_hour t =
     t - t mod 3600000000 + (if 30 \<le> dt_minute t then 3600000000 else 0)"

definition spec_earliest_available :: "datetime \<Rightarrow> datetime" where
  "spec_earliest_available now = spec_floor_to_hour now - 7 * 86400000000"


text \<open>
  The time index as the specification states it: the whole difference between the
  requested time and the selected run, divided by the step and rounded.
\<close>

definition spec_time_index :: "datetime \<Rightarrow> datetime \<Rightarrow> int \<Rightarrow> int" where
  "spec_time_index requested selected_run run_step_hours =
     py_round_div (requested - selected_run) (run_step_hours * 3600000000)"

text \<open>
  The query as the specification states it: one token per requested variable, the name,
  the time index in brackets, the level range for a level-dependent variable, the
  latitude and the longitude expression; the tokens are joined by commas.
\<close>

definition token_level ::
  "(string \<times> 'f var_meta) list \<Rightarrow> string option \<Rightarrow> string \<Rightarrow> string" where
  "token_level vs lev v =
     (case map_of vs v of
        None \<Rightarrow> []
      | Some m \<Rightarrow>
          (case lev of
             None \<Rightarrow> []
           | Some l \<Rightarrow> if level_dependent m = Some True then l else []))"

definition query_token ::
  "(string \<times> 'f var_meta) list \<Rightarrow> string \<Rightarrow> string option \<Rightarrow> string \<Rightarrow> string \<Rightarrow> string
     \<Rightarrow> string" where
  "query_token vs qtime lev lat lon v = v @ qtime @ token_level vs lev v @ lat @ lon"

fun join_commas :: "string list \<Rightarrow> string" where
  "join_commas [] = []"
| "join_commas [t] = t"
| "join_commas (t # u # ts) = t @ '','' @ join_commas (u # ts)"

definition spec_query ::
  "(string \<times> 'f var_meta) list \<Rightarrow> string \<Rightarrow> string option \<Rightarrow> string \<Rightarrow> string
     \<Rightarrow> string list \<Rightarrow> string" where
  "spec_query vs qtime lev lat lon vars =
     join_commas (map (query_token vs qtime lev lat lon) vars)"

text \<open>
  The variable is in the catalog, its \<^verbatim>\<open>level_dependent\<close> key is present, and a level
  range is at hand if the variable is level-dependent.
\<close>

definition has_level_info ::
  "(string \<times> 'f var_meta) list \<Rightarrow> string option \<Rightarrow> string \<Rightarrow> bool" where
  "has_level_info vs lev v =
     (case map_of vs v of
        None \<Rightarrow> False
      | Some m \<Rightarrow>
          level_dependent m = Some False \<or> (level_dependent m = Some True \<and> lev \<noteq> None))"

section \<open>Concrete inputs\<close>

text \<open>
  Exact rational arithmetic in place of floats; on the integers and halves used below
  double arithmetic is exact as well. \<open>fl_str\<close> is only right on integral values.
\<close>

definition exact_ops :: "rat float_ops" where
  "exact_ops = \<lparr>fl_of_int = of_int, fl_add = (+), fl_sub = (-), fl_mul = (*),
     fl_div = (\<lambda>a b. if b = 0 then None else Some (a / b)),
     fl_eq = (=),
     fl_int = (\<lambda>x. Inr (if 0 \<le> x then \<lfloor>x\<rfloor> else \<lceil>x\<rceil>)),
     fl_str = (\<lambda>x. str_int \<lfloor>x\<rfloor> @ ''.0'')\<rparr>"

text \<open>
  The clock reads 2021-02-20 12:00:00 UTC (day 737840 after day one). The parser and
  the calendar are tables for the dates used; the service answers 404 to every request.
\<close>

definition ex_parse :: "string \<Rightarrow> datetime option" where
  "ex_parse = map_of
     [(''2021-02-20 13:00'', 63749422800000000),
      (''2021-02-20 12:00'', 63749419200000000),
      (''2021-02-20 14:30'', 63749428200000000),
      (''2021-02-22 00:00'', 63749548800000000),
      (''2021-02-10 00:00'', 63748512000000000)]"

definition ex_strftime_Ymd :: "datetime \<Rightarrow> string" where
  "ex_strftime_Ymd t =
     (case map_of [(737840, ''20210220''), (737839, ''20210219'')] (t div 86400000000) of
        Some s \<Rightarrow> s
      | None \<Rightarrow> ''00000000'')"

definition ex_env :: "rat env" where
  "ex_env = \<lparr>utcnow = 63749419200000000, today = 63749419200000000,
     strftime_Ymd = ex_strftime_Ymd, dateutil_parse = ex_parse,
     requests_get = (\<lambda>u. (404, [])),
     das_parse = (\<lambda>t. (None, Map.empty, [])),
     File = (\<lambda>s. \<lparr>data = \<lparr>shape = [], flat = []\<rparr>, coords_time = [], coords_lev = [],
                     coords_lat = [], coords_lon = []\<rparr>),
     ops = exact_ops\<rparr>"

definition ex_times :: time_meta where
  "ex_times = \<lparr>grads_size = ''81'', grads_step = ''3hr''\<rparr>"

text \<open>
  Small latitude and longitude grids, and a vertical axis described the way the service
  describes its pressure levels, from the largest value down: 41 levels from 1000 to 0
  in steps of 25. Every number is one a double holds exactly.
\<close>

definition ex_lat_axis :: "rat axis_meta" where
  "ex_lat_axis = \<lparr>axis_grads_size = ''5'', minimum = - 1, maximum = 1, resolution = 1 / 2\<rparr>"

definition ex_lon_axis :: "rat axis_meta" where
  "ex_lon_axis = \<lparr>axis_grads_size = ''4'', minimum = 0, maximum = 3, resolution = 1\<rparr>"

definition ex_lev_axis :: "rat axis_meta" where
  "ex_lev_axis = \<lparr>axis_grads_size = ''41'', minimum = 1000, maximum = 0,
     resolution = 25\<rparr>"

definition ex_coords :: "string \<Rightarrow> rat axis_meta option" where
  "ex_coords = map_of [(''lat'', ex_lat_axis), (''lon'', ex_lon_axis), (''lev'', ex_lev_axis)]"

definition no_attrs :: "rat das_attrs" where
  "no_attrs = \<lparr>FillValue = None, missing_value = None, long_name = None\<rparr>"

definition ex_variables :: "(string \<times> rat var_meta) list" where
  "ex_variables =
     [(''tmp2m'', \<lparr>das = no_attrs, level_dependent = Some False\<rparr>),
      (''hgtprs'', \<lparr>das = no_attrs, level_dependent = Some True\<rparr>),
      (''nodecl'', \<lparr>das = no_attrs, level_dependent = None\<rparr>)]"

definition ex_forcast :: "rat forcast" where
  "ex_forcast = \<lparr>fc_resolution = ''0p50'', fc_timestep = [], times = ex_times,
     coords = ex_coords, variables = ex_variables\<rparr>"



text \<open>A decoded height field with one time, two levels, three latitudes, one longitude.\<close>

definition ex_hgtprs :: "rat hgtprs" where
  "ex_hgtprs = \<lparr>data = \<lparr>shape = [1, 2, 3, 1], flat = [110, 120, 130, 760, 770, 780]\<rparr>,
     coords_time = [0], coords_lev = [1000, 975], coords_lat = [0, 1 / 2, 1],
     coords_lon = [5]\<rparr>"

text \<open>The same clock at 03:00 UTC, and a world in which nothing is cached yet.\<close>

definition ex_env_night :: "rat env" where
  "ex_env_night = ex_env\<lparr>utcnow := 63749386800000000\<rparr>"

definition ex_world :: "rat world" where
  "ex_world = \<lparr>saved_atts = [''Na''], att_files = Map.empty, request_log = []\<rparr>"

section \<open>Dates: auxiliary facts\<close>

lemma hour_parts:
  "timedelta 0 0 (dt_minute t) (dt_second t) (dt_microsecond t) = t mod 3600000000"
proof -
  have a: "t mod 3600000000 = 60000000 * (t div 60000000 mod 60) + t mod 60000000"
    using zmod_zmult2_eq [of 60 t 60000000] by simp
  have b: "t mod 60000000 = 1000000 * (t div 1000000 mod 60) + t mod 1000000"
    using zmod_zmult2_eq [of 60 t 1000000] by simp
  show ?thesis
    unfolding timedelta_def dt_minute_def dt_second_def dt_microsecond_def
    using a b by simp
qed

lemma replace_to_hour_eq: "replace_to_hour t = t - t mod 3600000000"
  by (simp add: replace_to_hour_def hour_parts)

lemma minute_shift: "dt_minute (t + k * 3600000000) = dt_minute t"
proof -
  have "(t + k * 3600000000) div 60000000 = t div 60000000 + k * 60"
    by simp
  then show ?thesis by (simp add: dt_minute_def)
qed

lemma hour_round_shift: "hour_round (t + k * 3600000000) = hour_round t + k * 3600000000"
  using minute_shift [of t k]
  by (simp add: hour_round_def replace_to_hour_eq)

lemma minute_on_hour:
  assumes "t mod 3600000000 = 0"
  shows "dt_minute t = 0"
proof -
  from assms obtain k where "t = k * 3600000000"
    by (metis mod_eq_0_iff_dvd dvd_def mult.commute)
  then have "t div 60000000 = k * 60" by simp
  then show ?thesis by (simp add: dt_minute_def)
qed

lemma hour_round_on_hour: "t mod 3600000000 = 0 \<Longrightarrow> hour_round t = t"
  by (simp add: hour_round_def replace_to_hour_eq minute_on_hour timedelta_def)

lemma minute_range: "0 \<le> dt_minute t \<and> dt_minute t < 60"
  by (simp add: dt_minute_def)

text \<open>\<^verbatim>\<open>hour_round\<close> is the specification's \<open>floor_to_hour\<close>.\<close>

lemma hour_round_spec: "hour_round t = spec_floor_to_hour t"
proof -
  have "dt_minute t div 30 = (if 30 \<le> dt_minute t then 1 else 0)"
    using minute_range [of t] by auto
  then show ?thesis
    by (simp add: hour_round_def replace_to_hour_eq spec_floor_to_hour_def timedelta_def)
qed

text \<open>
  The minutes, seconds and microseconds of the clock are subtracted before
  \<^verbatim>\<open>hour_round\<close> is applied, so \<^verbatim>\<open>latest_available\<close> is never rounded up, and the
  forecast length is added to the latest run, not subtracted.
\<close>

lemma latest_available_eq:
  "latest_available now h =
     now - now mod 3600000000 - (dt_hour now mod 6) * 3600000000 + h * 3600000000"
proof -
  let ?x = "now - timedelta 0 (dt_hour now - 6 * (dt_hour now div 6) - h)
                     (dt_minute now) (dt_second now) (dt_microsecond now)"
  have split: "timedelta 0 (dt_hour now - 6 * (dt_hour now div 6) - h)
                 (dt_minute now) (dt_second now) (dt_microsecond now)
               = (dt_hour now - 6 * (dt_hour now div 6) - h) * 3600000000
                 + timedelta 0 0 (dt_minute now) (dt_second now) (dt_microsecond now)"
    by (simp add: timedelta_def algebra_simps)
  have m6: "dt_hour now - 6 * (dt_hour now div 6) = dt_hour now mod 6"
    by (simp add: minus_mult_div_eq_mod)
  have x: "?x = (now - now mod 3600000000) - (dt_hour now mod 6 - h) * 3600000000"
  proof -
    have "?x = now - ((dt_hour now - 6 * (dt_hour now div 6) - h) * 3600000000
                      + now mod 3600000000)"
      by (simp only: split hour_parts)
    also have "\<dots> = now - ((dt_hour now mod 6 - h) * 3600000000 + now mod 3600000000)"
      by (subst m6) (rule refl)
    finally show ?thesis by (simp add: algebra_simps)
  qed
  have "(now - now mod 3600000000) mod 3600000000 = 0"
    by (simp add: mod_diff_left_eq [symmetric])
  then have "?x mod 3600000000 = 0"
    unfolding x by (simp add: mod_diff_left_eq [symmetric])
  then have "hour_round ?x = ?x" by (rule hour_round_on_hour)
  then have "latest_available now h = ?x" by (simp only: latest_available_def)
  also have "\<dots> = (now - now mod 3600000000) - (dt_hour now mod 6 - h) * 3600000000"
    by (rule x)
  finally show ?thesis by (simp add: algebra_simps)
qed

lemma earliest_available_eq: "earliest_available now = spec_earliest_available now"
  using hour_round_shift [of now "- 168"]
  by (simp add: earliest_available_def spec_earliest_available_def timedelta_def
      hour_round_spec)

section \<open>The concrete inputs evaluated\<close>

lemma py_int_81: "py_int ''81'' = Some 81"
  by (simp add: py_int_def strip_def is_space_def is_digit_def digit_val_def)

lemma py_int_3: "py_int ''3'' = Some 3"
  by (simp add: py_int_def strip_def is_space_def is_digit_def digit_val_def)

lemma ex_size: "py_int (grads_size ex_times) = Some 81"
  by (simp add: ex_times_def py_int_81)

lemma ex_step: "step_hours ex_times = Inr 3"
  by (simp add: step_hours_def ex_times_def py_int_3)

lemma ex_run: "run_hours ex_times = Inr 243"
  by (simp add: run_hours_def ex_step ex_size)

lemma ex_now: "utcnow ex_env = 63749419200000000"
  by (simp add: ex_env_def)

lemma ex_latest: "latest_available 63749419200000000 243 = 63750294000000000"
  by (simp add: latest_available_eq dt_hour_def)

lemma ex_earliest: "earliest_available 63749419200000000 = 63748814400000000"
  by (simp add: earliest_available_eq spec_earliest_available_def spec_floor_to_hour_def
      dt_minute_def)

lemma ex_parse_1300: "dateutil_parse ex_env ''2021-02-20 13:00'' = Some 63749422800000000"
  by (simp add: ex_env_def ex_parse_def)


lemma ex_choose_1300:
  "choose_run ex_env ex_times 63749422800000000 63749419200000000 =
     Inr \<lparr>forcast_date = ''20210220'', forcast_time = ''12'', query_time = ''[0]''\<rparr>"
  by (simp add: choose_run_def ex_step timedelta_def ex_env_def ex_strftime_Ymd_def
      dt_hour_def format_02d_def str_int_def td_seconds_def py_round_div_def
      digit_char_def)

lemma ex_resolve_1300:
  "resolve_time ex_env ex_times ''2021-02-20 13:00'' =
     Inr \<lparr>forcast_date = ''20210220'', forcast_time = ''12'', query_time = ''[0]''\<rparr>"
proof -
  have "resolve_time ex_env ex_times ''2021-02-20 13:00'' =
          choose_run ex_env ex_times 63749422800000000 63749419200000000"
    by (simp add: resolve_time_def ex_run ex_parse_1300 ex_now ex_latest ex_earliest
        timedelta_def)
  then show ?thesis by (simp add: ex_choose_1300)
qed

section \<open>C1: the availability window\<close>





lemma py_int_5: "py_int ''5'' = Some 5"
  by (simp add: py_int_def strip_def is_space_def is_digit_def digit_val_def)

lemma py_int_4: "py_int ''4'' = Some 4"
  by (simp add: py_int_def strip_def is_space_def is_digit_def digit_val_def)

lemma upt_5: "[0..<5] = [0, 1, 2, 3, 4]"
  by (simp add: upt_rec)

lemma upt_4: "[0..<4] = [0, 1, 2, 3]"
  by (simp add: upt_rec)

lemma ex_lat: "ex_coords ''lat'' = Some ex_lat_axis"
  by (simp add: ex_coords_def)

lemma ex_lat_size: "py_int (axis_grads_size ex_lat_axis) = Some 5"
  by (simp add: ex_lat_axis_def py_int_5)

lemma ex_lat_1:
  "coord_expr exact_ops ex_coords ''lat'' LatitudeFormat (PStr ''1'') = Inr (PStr ''[4]'')"
  by (simp add: coord_expr_def isnumeric_def is_digit_def value_to_index_def ex_coords_def
      ex_lat_axis_def py_int_5 upt_5 lattice_def exact_ops_def digit_val_def str_int_def
      digit_char_def)

lemma ex_lon_2:
  "coord_expr exact_ops ex_coords ''lon'' LongitudeFormat (PStr ''2'') = Inr (PStr ''[2]'')"
  by (simp add: coord_expr_def isnumeric_def is_digit_def value_to_index_def ex_coords_def
      ex_lon_axis_def py_int_4 upt_4 lattice_def exact_ops_def digit_val_def str_int_def
      digit_char_def)

lemma ex_ops: "ops ex_env = exact_ops"
  by (simp add: ex_env_def)

lemma ex_fc:
  "times ex_forcast = ex_times" "coords ex_forcast = ex_coords"
  "variables ex_forcast = ex_variables"
  by (simp_all add: ex_forcast_def)

section \<open>C6: value_to_index\<close>

lemma list_index_Some:
  "list_index p xs = Some i \<Longrightarrow> i < length xs \<and> p (xs ! i) \<and> (\<forall>j<i. \<not> p (xs ! j))"
proof (induction xs arbitrary: i)
  case Nil
  then show ?case by simp
next
  case (Cons x xs)
  show ?case
  proof (cases "p x")
    case True
    with Cons.prems show ?thesis by simp
  next
    case False
    with Cons.prems obtain k where k: "list_index p xs = Some k" "i = Suc k"
      by auto
    from Cons.IH [OF k(1)] False k(2) show ?thesis
      by (auto simp: less_Suc_eq_0_disj)
  qed
qed

lemma list_index_None: "list_index p xs = None \<longleftrightarrow> (\<forall>k<length xs. \<not> p (xs ! k))"
proof (induction xs)
  case Nil
  then show ?case by simp
next
  case (Cons x xs)
  then show ?case by (auto simp: less_Suc_eq_0_disj)
qed

text \<open>
  C6. Let the axis have \<open>n\<close> grid points. If some lattice value
  \<open>minimum + resolution * k\<close> with \<open>k < n\<close> equals \<open>v\<close> (the comparison is Python's
  \<^verbatim>\<open>==\<close> on the floats the code computes), \<^verbatim>\<open>value_to_index\<close> returns the position
  \<open>i\<close> of the first such value, and the lattice value rebuilt from \<open>i\<close> equals \<open>v\<close>. If
  none does, it fails with the \<^verbatim>\<open>ValueError\<close> of \<^verbatim>\<open>list.index\<close>: there is no snapping
  to a neighbour. The statement holds for every float arithmetic, and needs neither
  \<open>resolution > 0\<close> nor \<open>n > 0\<close>.
\<close>

theorem value_to_index_first_match:
  assumes "cs coord = Some ax" and "py_int (axis_grads_size ax) = Some n"
  shows "((\<exists>k<nat n. fl_eq fo (lattice fo ax k) v) \<longrightarrow>
           (\<exists>i. value_to_index fo cs coord v = Inr i \<and> i < nat n
                \<and> fl_eq fo (lattice fo ax i) v
                \<and> (\<forall>j<i. \<not> fl_eq fo (lattice fo ax j) v)))
       \<and> (\<not> (\<exists>k<nat n. fl_eq fo (lattice fo ax k) v) \<longrightarrow>
           value_to_index fo cs coord v = Inl (ValueError NotInList))"
proof -
  let ?xs = "map (lattice fo ax) [0..<nat n]"
  let ?p = "\<lambda>x. fl_eq fo x v"
  have v: "value_to_index fo cs coord v =
             (case list_index ?p ?xs of None \<Rightarrow> Inl (ValueError NotInList) | Some i \<Rightarrow> Inr i)"
    using assms by (simp add: value_to_index_def)
  have none: "list_index ?p ?xs = None \<longleftrightarrow> \<not> (\<exists>k<nat n. fl_eq fo (lattice fo ax k) v)"
    by (simp add: list_index_None)
  show ?thesis
  proof (cases "list_index ?p ?xs")
    case None
    with v none show ?thesis by simp
  next
    case (Some i)
    from list_index_Some [OF Some]
    have "i < nat n" "fl_eq fo (lattice fo ax i) v" "\<forall>j<i. \<not> fl_eq fo (lattice fo ax j) v"
      by auto
    with v Some none show ?thesis by auto
  qed
qed

theorem value_to_index_first_match_witness:
  "ex_coords ''lat'' = Some ex_lat_axis
   \<and> py_int (axis_grads_size ex_lat_axis) = Some 5
   \<and> value_to_index exact_ops ex_coords ''lat'' (1 / 2) = Inr 3
   \<and> fl_eq exact_ops (lattice exact_ops ex_lat_axis 3) (1 / 2)
   \<and> value_to_index exact_ops ex_coords ''lat'' (1 / 4) = Inl (ValueError NotInList)"
proof -
  have on: "\<exists>k<nat 5. fl_eq exact_ops (lattice exact_ops ex_lat_axis k) (1 / 2)"
    by (rule exI [of _ 3]) (simp add: lattice_def exact_ops_def ex_lat_axis_def)
  have off: "\<not> (\<exists>k<nat 5. fl_eq exact_ops (lattice exact_ops ex_lat_axis k) (1 / 4))"
    by (auto simp: lattice_def exact_ops_def ex_lat_axis_def less_Suc_eq numeral_eq_Suc)
  from value_to_index_first_match
         [of ex_coords "''lat''" ex_lat_axis 5 exact_ops "1 / 2", OF ex_lat ex_lat_size] on
  obtain i where i: "value_to_index exact_ops ex_coords ''lat'' (1 / 2) = Inr i" "i < nat 5"
      "fl_eq exact_ops (lattice exact_ops ex_lat_axis i) (1 / 2)"
    by blast
  have "i = 3"
    using i(2,3)
    by (auto simp: lattice_def exact_ops_def ex_lat_axis_def less_Suc_eq numeral_eq_Suc)
  moreover from value_to_index_first_match
         [of ex_coords "''lat''" ex_lat_axis 5 exact_ops "1 / 4", OF ex_lat ex_lat_size] off
  have "value_to_index exact_ops ex_coords ''lat'' (1 / 4) = Inl (ValueError NotInList)"
    by blast
  ultimately show ?thesis using i ex_lat ex_lat_size by simp
qed

section \<open>C2: the time index\<close>

lemma ex_parse_0222: "dateutil_parse ex_env ''2021-02-22 00:00'' = Some 63749548800000000"
  by (simp add: ex_env_def ex_parse_def)

lemma ex_parse_1430: "dateutil_parse ex_env ''2021-02-20 14:30'' = Some 63749428200000000"
  by (simp add: ex_env_def ex_parse_def)

text \<open>
  The part of C2 that the code keeps: with runs every six hours and the latest one at
  12:00, a request for 14:30 selects the run of 12:00, and the time index is
  \<open>round(2.5 / 3) = 1\<close>.
\<close>

lemma ex_resolve_1430:
  "resolve_time ex_env ex_times ''2021-02-20 14:30'' =
     Inr \<lparr>forcast_date = ''20210220'', forcast_time = ''12'', query_time = ''[1]''\<rparr>"
proof -
  have "resolve_time ex_env ex_times ''2021-02-20 14:30'' =
          choose_run ex_env ex_times 63749428200000000 63749419200000000"
    by (simp add: resolve_time_def ex_run ex_parse_1430 ex_now ex_latest ex_earliest
        timedelta_def)
  also have "\<dots> =
      Inr \<lparr>forcast_date = ''20210220'', forcast_time = ''12'', query_time = ''[1]''\<rparr>"
    by (simp add: choose_run_def ex_step timedelta_def ex_env_def ex_strftime_Ymd_def
        dt_hour_def format_02d_def str_int_def td_seconds_def py_round_div_def
        digit_char_def)
  finally show ?thesis .
qed

text \<open>
  C2 at the failing input. The clock reads 2021-02-20 12:00, the model has 81 steps of
  3 hours, and the request is for 2021-02-22 00:00, which the availability window
  accepts. The run of 2021-02-20 12:00 is selected, 36 hours before the request.
  \<^verbatim>\<open>timedelta.seconds\<close> leaves the whole day out, so the code computes the index
  \<open>round(43200 / 10800) = 4\<close>, where the claim's \<open>round(36 / 3)\<close> is 12.
\<close>

theorem time_index_drops_days:
  "resolve_time ex_env ex_times ''2021-02-22 00:00'' =
     Inr \<lparr>forcast_date = ''20210220'', forcast_time = ''12'', query_time = ''[4]''\<rparr>
   \<and> spec_time_index 63749548800000000 63749419200000000 3 = 12"
proof -
  have "resolve_time ex_env ex_times ''2021-02-22 00:00'' =
          choose_run ex_env ex_times 63749548800000000 63749419200000000"
    by (simp add: resolve_time_def ex_run ex_parse_0222 ex_now ex_latest ex_earliest
        timedelta_def)
  also have "\<dots> =
      Inr \<lparr>forcast_date = ''20210220'', forcast_time = ''12'', query_time = ''[4]''\<rparr>"
    by (simp add: choose_run_def ex_step timedelta_def ex_env_def ex_strftime_Ymd_def
        dt_hour_def format_02d_def str_int_def td_seconds_def py_round_div_def
        digit_char_def)
  finally have "resolve_time ex_env ex_times ''2021-02-22 00:00'' =
      Inr \<lparr>forcast_date = ''20210220'', forcast_time = ''12'', query_time = ''[4]''\<rparr>" .
  moreover have "spec_time_index 63749548800000000 63749419200000000 3 = 12"
    by (simp add: spec_time_index_def py_round_div_def)
  ultimately show ?thesis by simp
qed

section \<open>C3: the latitude and longitude arguments\<close>

text \<open>Every string of the range form raises \<^verbatim>\<open>TypeError\<close>, whatever its endpoints.\<close>

lemma coord_expr_range:
  assumes "s \<noteq> []" and "hd s = CHR ''[''" and "last s = CHR '']''" and "CHR '':'' \<in> set s"
  shows "coord_expr fo cs coord bad (PStr s) = Inl TypeError"
  using assms by (simp add: coord_expr_def)

lemma coord_expr_number:
  "coord_expr fo cs coord bad (PFloat x) = Inr (PFloat x)"
  "coord_expr fo cs coord bad (PInt i) = Inr (PInt i)"
  by (simp_all add: coord_expr_def)

lemma coord_expr_empty: "coord_expr fo cs coord bad (PStr []) = Inl IndexError"
  by (simp add: coord_expr_def)

text \<open>
  C3 at the failing input: the latitude \<^verbatim>\<open>"[0:1]"\<close>, whose endpoints are both on the
  grid, is not converted to \<^verbatim>\<open>"[2:4]"\<close>; the call raises \<^verbatim>\<open>TypeError\<close>.
\<close>

theorem latitude_range_raises_TypeError:
  "get ex_env ex_forcast [''tmp2m''] ''2021-02-20 13:00'' (PStr ''[0:1]'') (PStr ''2'') []
     = Inl TypeError"
  by (simp add: get_def ex_fc ex_ops ex_resolve_1300 coord_expr_def)

section \<open>C5: a level-dependent variable without a level range\<close>

lemma add_lat_lon_error:
  "add_lat_lon s lat lon = Inl e \<Longrightarrow> e = TypeError"
  by (auto simp: add_lat_lon_def str_add_def split: sum.splits pyval.splits)

text \<open>
  The \<^verbatim>\<open>ValueError\<close> of line 181 is never raised: where \<^verbatim>\<open>lev == []\<close> can be evaluated,
  \<^verbatim>\<open>lev\<close> is a string.
\<close>

lemma make_query_never_level_required:
  "make_query vs qtime lev lat lon vars q \<noteq> Inl (ValueError (LevelRequired name))"
proof (induction vars arbitrary: q)
  case Nil
  show ?case by simp
next
  case (Cons v vars)
  show ?case
    using Cons.IH
    by (auto split: option.splits bool.splits sum.splits dest: add_lat_lon_error)
qed

text \<open>
  C5 at the failing input: \<^verbatim>\<open>hgtprs\<close> is level-dependent and \<^verbatim>\<open>alt\<close> is the empty
  list. The call does not raise the \<^verbatim>\<open>ValueError\<close> that names the variable: the local
  \<^verbatim>\<open>lev\<close> was never assigned, and reading it raises \<^verbatim>\<open>UnboundLocalError\<close>.
\<close>

theorem level_dependent_without_alt:
  "get ex_env ex_forcast [''hgtprs''] ''2021-02-20 13:00'' (PStr ''1'') (PStr ''2'') []
     = Inl UnboundLocalError"
  by (simp add: get_def ex_fc ex_ops ex_resolve_1300 ex_lat_1 ex_lon_2 lev_stage_def
      ex_variables_def)

section \<open>C7: the upper level index\<close>







text \<open>
  On the descending axis of the examples, 1000 down to 0 in steps of 25, all values and
  the quotient are integers, and the index is 40, the last of the 41 levels.
\<close>

lemma ex_lev_upper: "lev_upper exact_ops ex_coords = Inr 40"
  by (simp add: lev_upper_def ex_coords_def ex_lev_axis_def exact_ops_def)




section \<open>C9: the axes of the interpolator\<close>

lemma squeeze_squeeze: "squeeze (squeeze h) = squeeze h"
  by (simp add: squeeze_def)

lemma shape_squeeze: "shape (squeeze h) = filter (\<lambda>n. n \<noteq> 1) (shape h)"
  by (simp add: squeeze_def)

lemma flat_squeeze: "flat (squeeze h) = flat h"
  by (simp add: squeeze_def)

lemma collect_dims_four:
  "collect_dims [a, b, c, d] ([], h) =
     (filter (\<lambda>v. 1 < length v) [a, b, c, d],
      if list_all (\<lambda>v. 1 < length v) [a, b, c, d] then h else squeeze h)"
  by (simp add: squeeze_squeeze)

lemma build_interpolator_eq:
  "build_interpolator fo d =
     \<lparr>grid = filter (\<lambda>v. 1 < length v)
               [coords_time d, inverted_levs fo d, coords_lat d, coords_lon d],
      grid_values =
        (if list_all (\<lambda>v. 1 < length v)
              [coords_time d, inverted_levs fo d, coords_lat d, coords_lon d]
         then data d else squeeze (data d))\<rparr>"
  unfolding build_interpolator_def Let_def collect_dims_four by simp

text \<open>
  C9. For a decoded height grid whose array has one dimension per axis, in the order
  time, level, latitude, longitude, the interpolator is built over exactly the axes with
  more than one sample, in that order (the levels inverted to \<open>1000 - v\<close>), and the shape
  of its values is the shape of the height array without the dimensions of length one;
  the values themselves are unchanged. With a single time and a single longitude, and
  more than one level and latitude, the grid is the level axis and the latitude axis:
  two coordinates.
\<close>

theorem interpolator_axes:
  assumes "shape (data d) =
             map length [coords_time d, coords_lev d, coords_lat d, coords_lon d]"
  shows "grid (build_interpolator fo d) =
           filter (\<lambda>v. 1 < length v)
             [coords_time d, inverted_levs fo d, coords_lat d, coords_lon d]
       \<and> shape (grid_values (build_interpolator fo d)) =
           filter (\<lambda>n. n \<noteq> 1) (shape (data d))
       \<and> flat (grid_values (build_interpolator fo d)) = flat (data d)
       \<and> (length (coords_time d) = 1 \<and> length (coords_lon d) = 1
            \<and> 1 < length (coords_lev d) \<and> 1 < length (coords_lat d) \<longrightarrow>
          grid (build_interpolator fo d) = [inverted_levs fo d, coords_lat d]
          \<and> length (grid (build_interpolator fo d)) = 2
          \<and> shape (grid_values (build_interpolator fo d)) =
              [length (coords_lev d), length (coords_lat d)])"
proof -
  have len: "length (inverted_levs fo d) = length (coords_lev d)"
    by (simp add: inverted_levs_def)
  have shp: "shape (grid_values (build_interpolator fo d)) =
               filter (\<lambda>n. n \<noteq> 1) (shape (data d))"
    using assms by (auto simp: build_interpolator_eq len shape_squeeze)
  show ?thesis
    using shp assms
    by (auto simp: build_interpolator_eq len flat_squeeze)
qed

theorem interpolator_axes_witness:
  "shape (data ex_hgtprs) =
     map length [coords_time ex_hgtprs, coords_lev ex_hgtprs, coords_lat ex_hgtprs,
                 coords_lon ex_hgtprs]
   \<and> grid (build_interpolator exact_ops ex_hgtprs) = [[0, 25], [0, 1 / 2, 1]]
   \<and> length (grid (build_interpolator exact_ops ex_hgtprs)) = 2
   \<and> shape (grid_values (build_interpolator exact_ops ex_hgtprs)) = [2, 3]
   \<and> flat (grid_values (build_interpolator exact_ops ex_hgtprs))
       = [110, 120, 130, 760, 770, 780]"
proof -
  have s: "shape (data ex_hgtprs) =
     map length [coords_time ex_hgtprs, coords_lev ex_hgtprs, coords_lat ex_hgtprs,
                 coords_lon ex_hgtprs]"
    by (simp add: ex_hgtprs_def)
  have l: "inverted_levs exact_ops ex_hgtprs = [0, 25]"
    by (simp add: inverted_levs_def ex_hgtprs_def exact_ops_def)
  from interpolator_axes [OF s, of exact_ops] l s show ?thesis
    by (simp add: ex_hgtprs_def)
qed

section \<open>C10: get_attributes before 06:00 UTC\<close>

lemma scan_dims_error: "scan_dims ds b = Inl e \<Longrightarrow> e = IndexError"
  by (induction ds arbitrary: b) (auto split: list.splits)

lemma mark_array_error: "mark_array a vs = Inl e \<Longrightarrow> e = IndexError"
  unfolding mark_array_def
  by (auto split: list.splits if_splits sum.splits dest: scan_dims_error)

lemma mark_arrays_error: "mark_arrays as vs = Inl e \<Longrightarrow> e = IndexError"
  by (induction as arbitrary: vs) (auto split: sum.splits dest: mark_array_error)

lemma declare_and_save_log:
  "\<exists>r w'. declare_and_save env res step w parsed = (r, w') \<and> r \<noteq> Inl TypeError
      \<and> request_log w' = request_log w @ [dds_url env res step]"
proof (cases "fst (requests_get env (dds_url env res step)) = 200")
  case False
  then show ?thesis by (simp add: declare_and_save_def Let_def)
next
  case ok: True
  let ?m = "mark_arrays (findall_array (snd (requests_get env (dds_url env res step))))
              (map (\<lambda>(n, a). (n, fresh_variable a)) (snd (snd parsed)))"
  show ?thesis
  proof (cases ?m)
    case (Inl e)
    then have "e = IndexError" by (rule mark_arrays_error)
    with Inl ok show ?thesis by (simp add: declare_and_save_def Let_def)
  next
    case (Inr vs)
    with ok show ?thesis
      by (cases "fst parsed") (simp_all add: declare_and_save_def Let_def)
  qed
qed

text \<open>
  C10. For a configuration key that is not among the cached keys: when the UTC hour is
  below 6, \<^verbatim>\<open>get_attributes\<close> raises \<^verbatim>\<open>TypeError\<close> and the world is unchanged, so no
  request has been issued, and constructing a \<^verbatim>\<open>Forcast\<close> for that key fails the same
  way; when the UTC hour is 6 or more, no \<^verbatim>\<open>TypeError\<close> is raised and the first
  request issued is the one for the metadata description.
\<close>

theorem uncached_before_six:
  assumes "res @ step \<notin> set (saved_atts w)"
  shows "(dt_hour (utcnow env) < 6 \<longrightarrow>
            get_attributes env res step w = (Inl TypeError, w))
       \<and> (\<forall>ts. step = (if ts \<noteq> [] then ''_'' @ ts else ts) \<longrightarrow>
                dt_hour (utcnow env) < 6 \<longrightarrow>
                Forcast env res ts w = (Inl TypeError, w))
       \<and> (6 \<le> dt_hour (utcnow env) \<longrightarrow>
            (\<exists>r w'. get_attributes env res step w = (r, w') \<and> r \<noteq> Inl TypeError
               \<and> take (Suc (length (request_log w))) (request_log w') =
                   request_log w @ [das_url env res step]))"
proof (intro conjI impI allI)
  assume "dt_hour (utcnow env) < 6"
  with assms show a: "get_attributes env res step w = (Inl TypeError, w)"
    by (simp add: get_attributes_def)
next
  fix ts
  assume "step = (if ts \<noteq> [] then ''_'' @ ts else ts)" and "dt_hour (utcnow env) < 6"
  with assms
  have "get_attributes env res (if ts \<noteq> [] then ''_'' @ ts else ts) w = (Inl TypeError, w)"
    by (simp add: get_attributes_def)
  then show "Forcast env res ts w = (Inl TypeError, w)"
    by (simp add: Forcast_def Let_def)
next
  assume six: "6 \<le> dt_hour (utcnow env)"
  let ?u = "das_url env res step"
  let ?w = "w\<lparr>request_log := request_log w @ [?u]\<rparr>"
  have g: "get_attributes env res step w =
      (if fst (requests_get env ?u) \<noteq> 200 then (Inl NotFoundDas, ?w)
       else declare_and_save env res step ?w (das_parse env (snd (requests_get env ?u))))"
    using assms six by (simp add: get_attributes_def Let_def)
  show "\<exists>r w'. get_attributes env res step w = (r, w') \<and> r \<noteq> Inl TypeError
          \<and> take (Suc (length (request_log w))) (request_log w') = request_log w @ [?u]"
  proof (cases "fst (requests_get env ?u) = 200")
    case False
    with g show ?thesis by simp
  next
    case True
    from declare_and_save_log [of env res step ?w "das_parse env (snd (requests_get env ?u))"]
    obtain r w' where r: "declare_and_save env res step ?w
          (das_parse env (snd (requests_get env ?u))) = (r, w')"
        "r \<noteq> Inl TypeError" "request_log w' = request_log ?w @ [dds_url env res step]"
      by blast
    from g True r(1) have "get_attributes env res step w = (r, w')"
      by simp
    with r(2,3) show ?thesis by simp
  qed
qed

lemma ex_uncached: "''0p25'' @ ''_1hr'' \<notin> set (saved_atts ex_world)"
  by (simp add: ex_world_def)

lemma ex_night_hour: "dt_hour (utcnow ex_env_night) = 3"
  by (simp add: ex_env_night_def dt_hour_def)

lemma ex_day_hour: "dt_hour (utcnow ex_env) = 12"
  by (simp add: ex_now dt_hour_def)

lemma ex_das_url:
  "das_url ex_env ''0p25'' ''_1hr'' =
     ''https://nomads.ncep.noaa.gov/dods/gfs_0p25_1hr/gfs20210220/gfs_0p25_1hr_00z.das''"
  by (simp add: das_url_def ex_env_def ex_strftime_Ymd_def)

lemma ex_not_found: "requests_get ex_env u = (404, [])"
  by (simp add: ex_env_def)

lemma ex_attributes_day:
  "get_attributes ex_env ''0p25'' ''_1hr'' ex_world =
     (Inl NotFoundDas, ex_world\<lparr>request_log :=
        [''https://nomads.ncep.noaa.gov/dods/gfs_0p25_1hr/gfs20210220/gfs_0p25_1hr_00z.das'']\<rparr>)"
proof -
  have "request_log ex_world = []" by (simp add: ex_world_def)
  then show ?thesis
    using ex_uncached
    by (simp add: get_attributes_def ex_day_hour Let_def ex_das_url ex_not_found)
qed

theorem uncached_before_six_witness:
  "''0p25'' @ ''_1hr'' \<notin> set (saved_atts ex_world)
   \<and> dt_hour (utcnow ex_env_night) = 3
   \<and> get_attributes ex_env_night ''0p25'' ''_1hr'' ex_world = (Inl TypeError, ex_world)
   \<and> Forcast ex_env_night ''0p25'' ''1hr'' ex_world = (Inl TypeError, ex_world)
   \<and> dt_hour (utcnow ex_env) = 12
   \<and> get_attributes ex_env ''0p25'' ''_1hr'' ex_world =
       (Inl NotFoundDas, ex_world\<lparr>request_log :=
          [''https://nomads.ncep.noaa.gov/dods/gfs_0p25_1hr/gfs20210220/gfs_0p25_1hr_00z.das'']\<rparr>)"
proof -
  from uncached_before_six [OF ex_uncached, of ex_env_night]
  have "get_attributes ex_env_night ''0p25'' ''_1hr'' ex_world = (Inl TypeError, ex_world)"
    and "Forcast ex_env_night ''0p25'' ''1hr'' ex_world = (Inl TypeError, ex_world)"
    by (simp_all add: ex_night_hour)
  then show ?thesis
    using ex_uncached ex_night_hour ex_day_hour ex_attributes_day by simp
qed

section \<open>C4: the query string\<close>

lemma add_lat_lon_str: "add_lat_lon s (PStr a) (PStr b) = Inr (s @ a @ b)"
  by (simp add: add_lat_lon_def str_add_def)

lemma make_query_acc:
  assumes "list_all (has_level_info vs lev) vars"
  shows "make_query vs qtime lev (PStr lat) (PStr lon) vars q =
           Inr (q @ concat (map (\<lambda>v. '','' @ query_token vs qtime lev lat lon v) vars))"
  using assms
proof (induction vars arbitrary: q)
  case Nil
  show ?case by simp
next
  case (Cons v vars)
  from Cons.prems have v: "has_level_info vs lev v"
    and rest: "list_all (has_level_info vs lev) vars"
    by simp_all
  from v obtain m where m: "map_of vs v = Some m"
    by (auto simp: has_level_info_def split: option.splits)
  show ?case
  proof (cases "level_dependent m = Some True")
    case True
    with v m obtain l where l: "lev = Some l"
      by (auto simp: has_level_info_def)
    show ?thesis
      using m True l Cons.IH [OF rest]
      by (simp add: add_lat_lon_str query_token_def token_level_def)
  next
    case False
    with v m have f: "level_dependent m = Some False"
      by (auto simp: has_level_info_def)
    show ?thesis
      using m f Cons.IH [OF rest]
      by (cases lev) (simp_all add: add_lat_lon_str query_token_def token_level_def)
  qed
qed

lemma comma_tokens_join:
  "ts \<noteq> [] \<Longrightarrow> concat (map (\<lambda>t. '','' @ t) ts) = '','' @ join_commas ts"
  by (induction ts rule: join_commas.induct) simp_all

text \<open>
  C4, as stated, fails: for the single variable \<^verbatim>\<open>tmp2m\<close> the code builds
  \<^verbatim>\<open>,tmp2m[0][4][2]\<close>, with a comma in front, where joining the tokens by commas
  gives \<^verbatim>\<open>tmp2m[0][4][2]\<close>.
\<close>

theorem C4_counterexample:
  "make_query ex_variables ''[0]'' None (PStr ''[4]'') (PStr ''[2]'') [''tmp2m''] []
     = Inr '',tmp2m[0][4][2]''
   \<and> spec_query ex_variables ''[0]'' None ''[4]'' ''[2]'' [''tmp2m''] = ''tmp2m[0][4][2]''"
  by (simp add: ex_variables_def add_lat_lon_str spec_query_def query_token_def
      token_level_def)

text \<open>
  C4, amended. When every requested variable is in the catalog with its
  \<^verbatim>\<open>level_dependent\<close> key present, a level range is at hand for every level-dependent
  one, and the latitude and longitude expressions are strings, the loop ends with the
  query that holds, in request order, one token per requested variable, each token
  preceded by a comma: the name, the bracketed time index, the level range when the
  variable is level-dependent, the latitude and the longitude expression. For a
  request that is not empty this is the comma-joined string of the claim with one more
  comma in front.
\<close>

theorem query_comma_before_each_token:
  assumes "list_all (has_level_info vs lev) vars"
  shows "make_query vs qtime lev (PStr lat) (PStr lon) vars [] =
           Inr (concat (map (\<lambda>v. '','' @ query_token vs qtime lev lat lon v) vars))
       \<and> (vars \<noteq> [] \<longrightarrow>
            make_query vs qtime lev (PStr lat) (PStr lon) vars [] =
              Inr ('','' @ spec_query vs qtime lev lat lon vars))"
proof -
  have a: "make_query vs qtime lev (PStr lat) (PStr lon) vars [] =
             Inr (concat (map (\<lambda>v. '','' @ query_token vs qtime lev lat lon v) vars))"
    using make_query_acc [OF assms, of qtime lat lon "[]"] by simp
  have "vars \<noteq> [] \<Longrightarrow>
          concat (map (\<lambda>v. '','' @ query_token vs qtime lev lat lon v) vars)
            = '','' @ spec_query vs qtime lev lat lon vars"
    using comma_tokens_join [of "map (query_token vs qtime lev lat lon) vars"]
    by (simp add: spec_query_def comp_def)
  with a show ?thesis by simp
qed

theorem query_comma_before_each_token_witness:
  "list_all (has_level_info ex_variables (Some ''[0:40]'')) [''tmp2m'', ''hgtprs'']
   \<and> make_query ex_variables ''[0]'' (Some ''[0:40]'') (PStr ''[4]'') (PStr ''[2]'')
        [''tmp2m'', ''hgtprs''] []
       = Inr '',tmp2m[0][4][2],hgtprs[0][0:40][4][2]''"
proof -
  have h: "list_all (has_level_info ex_variables (Some ''[0:40]'')) [''tmp2m'', ''hgtprs'']"
    by (simp add: has_level_info_def ex_variables_def)
  from query_comma_before_each_token [OF h, of "''[0]''" "''[4]''" "''[2]''"] h
  show ?thesis
    by (simp add: spec_query_def query_token_def token_level_def ex_variables_def)
qed

end
